theory Spec2Isabelle
  imports Main "HOL-Library.Word" "HOL-Library.Signed_Division" "HOL-Library.Char_ord"
begin

unbundle bit_operations_syntax

section \<open>Data model of package drivechain\<close>

text \<open>
  Go's \<open>byte\<close> and C's \<open>uchar\<close> are 8-bit words, \<open>uint64\<close> and \<open>int64\<close> are 64-bit
  words (the conversion \<open>int64(x)\<close> of a \<open>uint64\<close> keeps the bits; only the reading
  changes, \<open>uint\<close> against \<open>sint\<close>), and \<open>*big.Int\<close> is the unbounded integer it points
  to (a nil pointer is outside the model). A fixed array \<open>[20]C.uchar\<close> is a byte list
  whose length the Go type fixes at 20.
\<close>

type_synonym byte = "8 word"
type_synonym uint64 = "64 word"
type_synonym int64 = "64 word"

text \<open>A call either returns or panics; \<open>Panic\<close> carries the message.\<close>

datatype 'a outcome = Panic string | Return 'a

text \<open>An \<open>error\<close> value made by \<open>errors.New\<close> or \<open>fmt.Errorf\<close>, with its message.\<close>

datatype error = Error string

definition TREASURY_ACCOUNT :: string where
  "TREASURY_ACCOUNT = ''0xc96aaa54e2d44c299564da76e1cd3184a2386b8d''"

text \<open>\<open>var Satoshi = big.NewInt(10_000_000_000)\<close>: the number of Wei in one Satoshi.\<close>

definition Satoshi :: int where
  "Satoshi = 10000000000"

definition FeeLength :: nat where
  "FeeLength = 8"

definition MainchainAddressLength :: nat where
  "MainchainAddressLength = 20"

record Deposit =
  Address :: "byte list"
  Amount :: int

record Refund =
  Id :: "byte list"
  Amount :: int

record Withdrawal =
  Address :: "byte list"
  Amount :: int
  Fee :: int

section \<open>Library operations used by the package\<close>

text \<open>\<open>big.NewInt(x int64)\<close>: the integer whose value is the signed reading of \<open>x\<close>.\<close>

definition NewInt :: "int64 \<Rightarrow> int" where
  "NewInt x = sint x"

text \<open>
  \<open>z.Mul(x, y)\<close> is the exact product. \<open>z.Div(x, y)\<close> is Go's Euclidean division
  (\<open>0 \<le> x - y * q < |y|\<close>); it panics on a zero divisor. For a positive divisor the
  Euclidean quotient is the floor quotient, which is \<open>div\<close> on \<open>int\<close>.
\<close>

definition Mul :: "int \<Rightarrow> int \<Rightarrow> int" where
  "Mul x y = x * y"

definition Div :: "int \<Rightarrow> int \<Rightarrow> int outcome" where
  "Div x y =
     (if y = 0 then Panic ''division by zero''
      else Return (if 0 < y then x div y else - (x div - y)))"

text \<open>
  A slice expression \<open>s[lo:hi]\<close> on a slice whose capacity is its length: it panics
  unless \<open>lo \<le> hi \<le> len(s)\<close>.
\<close>

definition slice :: "'a list \<Rightarrow> nat \<Rightarrow> nat \<Rightarrow> 'a list outcome" where
  "slice s lo hi =
     (if lo \<le> hi \<and> hi \<le> length s then Return (take (hi - lo) (drop lo s))
      else Panic ''slice bounds out of range'')"

text \<open>An indexed store \<open>a[i] = v\<close>: it panics when \<open>i\<close> is out of range.\<close>

definition store :: "'a list \<Rightarrow> nat \<Rightarrow> 'a \<Rightarrow> 'a list outcome" where
  "store a i v =
     (if i < length a then Return (a[i := v]) else Panic ''index out of range'')"

text \<open>
  \<open>binary.BigEndian.PutUint64(b, v)\<close> checks \<open>b[7]\<close> and then stores
  \<open>byte(v >> 56)\<close>, ..., \<open>byte(v)\<close> at \<open>b[0]\<close>, ..., \<open>b[7]\<close>.
\<close>

definition PutUint64 :: "byte list \<Rightarrow> uint64 \<Rightarrow> byte list outcome" where
  "PutUint64 b v =
     (if length b \<le> 7 then Panic ''index out of range''
      else Return (b[0 := ucast (drop_bit 56 v),
                     1 := ucast (drop_bit 48 v),
                     2 := ucast (drop_bit 40 v),
                     3 := ucast (drop_bit 32 v),
                     4 := ucast (drop_bit 24 v),
                     5 := ucast (drop_bit 16 v),
                     6 := ucast (drop_bit 8 v),
                     7 := ucast v]))"

text \<open>
  \<open>binary.BigEndian.Uint64(b)\<close> checks \<open>b[7]\<close> and returns
  \<open>uint64(b[7]) | uint64(b[6])<<8 | ... | uint64(b[0])<<56\<close>.
\<close>

definition Uint64 :: "byte list \<Rightarrow> uint64 outcome" where
  "Uint64 b =
     (if length b \<le> 7 then Panic ''index out of range''
      else Return (ucast (b ! 7) OR push_bit 8 (ucast (b ! 6))
                   OR push_bit 16 (ucast (b ! 5)) OR push_bit 24 (ucast (b ! 4))
                   OR push_bit 32 (ucast (b ! 3)) OR push_bit 40 (ucast (b ! 2))
                   OR push_bit 48 (ucast (b ! 1)) OR push_bit 56 (ucast (b ! 0))))"

text \<open>
  The loop \<open>for i, x := range src { dst[i] = x }\<close>, run from index \<open>i\<close> on.
\<close>

fun copy_range :: "byte list \<Rightarrow> nat \<Rightarrow> byte list \<Rightarrow> byte list outcome" where
  "copy_range dst i [] = Return dst"
| "copy_range dst i (x # src) =
     (case store dst i x of
        Panic m \<Rightarrow> Panic m
      | Return dst' \<Rightarrow> copy_range dst' (Suc i) src)"

section \<open>The withdrawal codec\<close>

text \<open>
  \<open>GetWithdrawalData(fee)\<close>. The address comes from the engine call
  \<open>C.get_new_mainchain_address()\<close>; its result \<open>cAddress\<close> is a parameter here.
\<close>

definition GetWithdrawalData :: "byte list \<Rightarrow> uint64 \<Rightarrow> byte list outcome" where
  "GetWithdrawalData cAddress fee =
     (case PutUint64 (replicate FeeLength 0) fee of
        Panic m \<Rightarrow> Panic m
      | Return feeBytes \<Rightarrow>
          (case copy_range (replicate MainchainAddressLength 0) 0 cAddress of
             Panic m \<Rightarrow> Panic m
           | Return addressBytes \<Rightarrow> Return (feeBytes @ addressBytes)))"

text \<open>
  \<open>DecodeWithdrawal(value, data)\<close>. The Go function returns a pair of a withdrawal and an
  error; \<open>Inl\<close> is the return with a non-nil error, \<open>Inr\<close> the return with a nil one.
\<close>

definition DecodeWithdrawal :: "int \<Rightarrow> byte list \<Rightarrow> (error + Withdrawal) outcome" where
  "DecodeWithdrawal val data =
     (if length data \<noteq> FeeLength + MainchainAddressLength
      then Return (Inl (Error ''wrong withdrawal data length''))
      else
       (case slice data 0 FeeLength of
          Panic m \<Rightarrow> Panic m
        | Return feeBytes \<Rightarrow>
           (if length feeBytes \<noteq> FeeLength then Panic ''off by one error''
            else
             (case slice data FeeLength (FeeLength + MainchainAddressLength) of
                Panic m \<Rightarrow> Panic m
              | Return addressBytes \<Rightarrow>
                 (if length addressBytes \<noteq> MainchainAddressLength
                  then Panic ''off by one error''
                  else
                   (case copy_range (replicate MainchainAddressLength 0) 0 addressBytes of
                      Panic m \<Rightarrow> Panic m
                    | Return address \<Rightarrow>
                       (case Div val Satoshi of
                          Panic m \<Rightarrow> Panic m
                        | Return amount \<Rightarrow>
                           (case Uint64 feeBytes of
                              Panic m \<Rightarrow> Panic m
                            | Return fee \<Rightarrow>
                                Return (Inr \<lparr>Address = address, Amount = amount,
                                             Fee = NewInt fee\<rparr>)))))))))"

text \<open>
  The fee field as the wire format describes it: the value of a byte string read as a
  big-endian unsigned integer. It is the reference that \<open>Uint64\<close> and the decoded fee
  are compared with.
\<close>

definition big_endian_value :: "byte list \<Rightarrow> int" where
  "big_endian_value bs = foldl (\<lambda>acc b. acc * 256 + uint b) 0 bs"

section \<open>Unspent withdrawals\<close>

text \<open>
  One element of the array behind \<open>C.get_unspent_withdrawals()\<close>, with the fields the Go
  code reads: \<open>id\<close> (a C string), \<open>address\<close> (a \<open>[20]C.uchar\<close>), \<open>amount\<close> and \<open>fee\<close>
  (unsigned 64-bit integers at the engine boundary). The fields carry the prefix \<open>cw_\<close>.
\<close>

record CWithdrawal =
  cw_id :: string
  cw_address :: "byte list"
  cw_amount :: uint64
  cw_fee :: uint64

text \<open>
  \<open>GetUnspentWithdrawals()\<close>, on the array the engine returned. \<open>common.HexToHash\<close> of
  go-ethereum is the parameter \<open>HexToHash\<close>; a \<open>common.Hash\<close> is a byte list (32 bytes).
  The loop stores into the map in array order, so a later record with the same key wins.
\<close>

definition GetUnspentWithdrawals ::
    "(string \<Rightarrow> byte list) \<Rightarrow> CWithdrawal list \<Rightarrow> (byte list \<rightharpoonup> Withdrawal)" where
  "GetUnspentWithdrawals HexToHash cWithdrawals =
     foldl (\<lambda>withdrawals cWithdrawal.
              withdrawals(HexToHash (cw_id cWithdrawal) \<mapsto>
                \<lparr>Address = cw_address cWithdrawal,
                 Amount = Mul (NewInt (cw_amount cWithdrawal)) Satoshi,
                 Fee = Mul (NewInt (cw_fee cWithdrawal)) Satoshi\<rparr>))
           Map.empty cWithdrawals"

section \<open>Deposit ingestion\<close>

text \<open>
  The result of \<open>C.get_deposit_outputs()\<close>: the validity flag and the array (\<open>ptr\<close>, \<open>len\<close>)
  as a list of its elements, each with the fields \<open>address\<close> (a C string) and \<open>amount\<close>,
  here with the prefix \<open>cd_\<close>.
\<close>

record CDeposit =
  cd_address :: string
  cd_amount :: uint64

record CDeposits =
  valid :: bool
  elems :: "CDeposit list"

record RawDeposit =
  address :: string
  amount :: uint64

text \<open>
  \<open>getDepositOutputs()\<close>, on the engine's answer. The error return carries an empty slice
  beside the error; \<open>Inl\<close> stands for that pair.
\<close>

definition getDepositOutputs :: "CDeposits \<Rightarrow> error + RawDeposit list" where
  "getDepositOutputs ptrDeposits =
     (if \<not> valid ptrDeposits then Inl (Error ''can't get deposit outputs'')
      else Inr (foldl (\<lambda>deposits cDeposit.
                         deposits @ [\<lparr>address = cd_address cDeposit,
                                      amount = cd_amount cDeposit\<rparr>])
                      [] (elems ptrDeposits)))"

text \<open>
  \<open>GetDepositOutputs()\<close>. \<open>common.HexToAddress\<close> of go-ethereum is the parameter
  \<open>HexToAddress\<close>; a \<open>common.Address\<close> is a byte list (20 bytes).
\<close>

definition GetDepositOutputs ::
    "(string \<Rightarrow> byte list) \<Rightarrow> CDeposits \<Rightarrow> error + Deposit list" where
  "GetDepositOutputs HexToAddress ptrDeposits =
     (case getDepositOutputs ptrDeposits of
        Inl err \<Rightarrow> Inl (Error ''failed to get deposits'')
      | Inr rawDeposits \<Rightarrow>
          Inr (foldl (\<lambda>deposits rawDeposit.
                        deposits @ [\<lparr>Deposit.Address = HexToAddress (address rawDeposit),
                                     Deposit.Amount = NewInt (amount rawDeposit)\<rparr>])
                     [] rawDeposits))"

section \<open>Startup: the treasury guard\<close>

text \<open>
  \<open>strings.ToLower(s)\<close>: a string of ASCII bytes is returned as it is when it has no
  upper-case letter, and otherwise with \<open>'a' - 'A'\<close> added to each byte between \<open>'A'\<close>
  and \<open>'Z'\<close>; a string with a byte from \<open>0x80\<close> on goes through the Unicode mapping
  \<open>Map(unicode.ToLower, s)\<close>, which is the parameter \<open>unicodeLower\<close>.
\<close>

definition isASCII :: "string \<Rightarrow> bool" where
  "isASCII s = list_all (\<lambda>c. (of_char c :: nat) < 128) s"

definition hasUpper :: "string \<Rightarrow> bool" where
  "hasUpper s = list_ex (\<lambda>c. CHR ''A'' \<le> c \<and> c \<le> CHR ''Z'') s"

definition lowerByte :: "char \<Rightarrow> char" where
  "lowerByte c =
     (if CHR ''A'' \<le> c \<and> c \<le> CHR ''Z'' then char_of (of_char c + 32 :: nat) else c)"

definition ToLower :: "(string \<Rightarrow> string) \<Rightarrow> string \<Rightarrow> string" where
  "ToLower unicodeLower s =
     (if isASCII s then (if \<not> hasUpper s then s else map lowerByte s)
      else unicodeLower s)"

text \<open>\<open>err.Error()\<close>, the message of an error.\<close>

fun message :: "error \<Rightarrow> string" where
  "message (Error m) = m"

text \<open>
  What \<open>Init\<close> does to the world, in order: the RPC request it sends
  (\<open>http.DefaultClient.Do\<close>) and the start of the engine (\<open>initBmmEngine\<close>).
\<close>

datatype effect = HttpDo | InitBmmEngine

record Response =
  StatusCode :: nat
  Status :: string
  Body :: "error + string"

text \<open>
  \<open>Init(dbPath, host, port, rpcUser, rpcPassword)\<close>. Its arguments only travel into the
  calls outside the package, whose results are the parameters here:
  \<^item> \<open>derived\<close>: \<open>Inl err\<close> when \<open>crypto.HexToECDSA(TREASURY_PRIVATE_KEY)\<close> fails, otherwise
    \<open>Inr h\<close> with \<open>h\<close> the \<open>Hex()\<close> form of the address that \<open>crypto.PubkeyToAddress\<close>
    derives from the key;
  \<^item> \<open>newRequest\<close>: the error of \<open>http.NewRequestWithContext\<close>, if any;
  \<^item> \<open>doResult\<close>: the error or the response of \<open>http.DefaultClient.Do\<close>, the response with
    what \<open>io.ReadAll\<close> gives for its body.
  The result is the list of effects performed and how the call ends: a panic, or the
  returned error (\<open>None\<close> for \<open>nil\<close>).
\<close>

definition Init ::
    "(string \<Rightarrow> string) \<Rightarrow> error + string \<Rightarrow> error option \<Rightarrow> error + Response
      \<Rightarrow> effect list \<times> error option outcome" where
  "Init unicodeLower derived newRequest doResult =
     (case derived of
        Inl err \<Rightarrow> ([], Panic (''can't get treasury private key: '' @ message err))
      | Inr addressHex \<Rightarrow>
         (let actualTreasuryAccount = ToLower unicodeLower addressHex in
          if TREASURY_ACCOUNT \<noteq> actualTreasuryAccount
          then ([], Panic (''treasury account: '' @ TREASURY_ACCOUNT
                           @ '' != actual treasury account: '' @ actualTreasuryAccount))
          else
           (case newRequest of
              Some err \<Rightarrow> ([], Return (Some err))
            | None \<Rightarrow>
               (case doResult of
                  Inl err \<Rightarrow>
                    ([HttpDo],
                     Return (Some (Error
                       (''unable to establish RPC connection with mainchain: ''
                        @ message err))))
                | Inr res \<Rightarrow>
                   (if StatusCode res \<noteq> 200
                    then ([HttpDo],
                          Return (Some (Error
                            (''unable to establish RPC connection with mainchain: ''
                             @ Status res @ '': ''
                             @ (case Body res of
                                  Inl err \<Rightarrow> ''<empty body>''
                                | Inr body \<Rightarrow> body)))))
                    else ([HttpDo, InitBmmEngine], Return None))))))"

section \<open>Block connection\<close>

text \<open>
  Modelled from the spec: the engine behind the C boundary, whose code is not among the
  package's Go sources. Its persisted state is a value of type \<open>'s\<close>, read by
  \<open>C.get_unspent_withdrawals\<close> and \<open>C.get_deposit_outputs\<close>. Whether the engine accepts
  a block in a state (its full validation) and the state after applying the block are the
  fields \<open>acceptable\<close> and \<open>apply_block\<close>, left open. The marshalling helpers
  \<open>newDeposits\<close>, \<open>newWithdrawals\<close> and \<open>newRefunds\<close> of the package, which are not in the
  source file either, are fields as well.
\<close>

record ('s, 'd, 'w, 'r) engine =
  get_unspent_withdrawals :: "'s \<Rightarrow> CWithdrawal list"
  get_deposit_outputs :: "'s \<Rightarrow> CDeposits"
  acceptable :: "'s \<Rightarrow> 'd \<times> 'w \<times> 'r \<Rightarrow> bool"
  apply_block :: "'s \<Rightarrow> 'd \<times> 'w \<times> 'r \<Rightarrow> 's"
  newDeposits :: "Deposit list \<Rightarrow> 'd"
  newWithdrawals :: "(byte list \<rightharpoonup> Withdrawal) \<Rightarrow> 'w"
  newRefunds :: "Refund list \<Rightarrow> 'r"

text \<open>
  Modelled from the spec: \<open>C.connect_block\<close>, the engine's entry point behind
  \<open>ConnectBlock\<close>, whose code is not among the package's Go sources. The spec (4.7): the
  engine validates the block; it rejects (returns false) rather than partially apply; and
  when \<open>dryRun\<close> is true it reports acceptability without mutating persisted state. The
  result is the answer and the state afterwards.
\<close>

definition connect_block ::
    "('s, 'd, 'w, 'r) engine \<Rightarrow> 's \<Rightarrow> 'd \<times> 'w \<times> 'r \<Rightarrow> bool \<Rightarrow> bool \<times> 's" where
  "connect_block eng s block just_checking =
     (if acceptable eng s block
      then (True, if just_checking then s else apply_block eng s block)
      else (False, s))"

text \<open>\<open>ConnectBlock(deposits, withdrawals, refunds, just_checking)\<close>, in engine state \<open>s\<close>.\<close>

definition ConnectBlock ::
    "('s, 'd, 'w, 'r) engine \<Rightarrow> 's \<Rightarrow> Deposit list \<Rightarrow> (byte list \<rightharpoonup> Withdrawal)
      \<Rightarrow> Refund list \<Rightarrow> bool \<Rightarrow> bool \<times> 's" where
  "ConnectBlock eng s deposits withdrawals refunds just_checking =
     (let cDeposits = newDeposits eng deposits;
          cWithdrawals = newWithdrawals eng withdrawals;
          cRefunds = newRefunds eng refunds
      in connect_block eng s (cDeposits, cWithdrawals, cRefunds) just_checking)"

section \<open>Properties of the library operations\<close>

lemma copy_range_gen:
  "i + length src \<le> length dst \<Longrightarrow>
   copy_range dst i src = Return (take i dst @ src @ drop (i + length src) dst)"
proof (induction src arbitrary: dst i)
  case Nil
  then show ?case by simp
next
  case (Cons x src)
  have lt: "i < length dst" using Cons.prems by simp
  have le: "Suc i + length src \<le> length (dst[i := x])" using Cons.prems by simp
  have "copy_range dst i (x # src) = copy_range (dst[i := x]) (Suc i) src"
    using lt by (simp add: store_def)
  also have "\<dots> = Return (take (Suc i) (dst[i := x]) @ src
                       @ drop (Suc i + length src) (dst[i := x]))"
    by (rule Cons.IH [OF le])
  also have "take (Suc i) (dst[i := x]) = take i dst @ [x]"
    using lt by (simp add: take_Suc_conv_app_nth)
  also have "drop (Suc i + length src) (dst[i := x]) = drop (i + length (x # src)) dst"
    by simp
  finally show ?case by simp
qed

lemma copy_range_full:
  "length src = length dst \<Longrightarrow> copy_range dst 0 src = Return src"
  by (simp add: copy_range_gen)

lemma byte_at:
  fixes v :: uint64
  shows "push_bit k (ucast (ucast (drop_bit k v) :: byte) :: uint64) = v AND push_bit k (mask 8)"
  by (rule bit_word_eqI) (auto simp: bit_simps)

lemma byte_at0:
  fixes v :: uint64
  shows "(ucast (ucast v :: byte) :: uint64) = v AND mask 8"
  using byte_at [of 0 v] by simp

lemma masks_cover:
  "(mask 8 OR push_bit 8 (mask 8) OR push_bit 16 (mask 8) OR push_bit 24 (mask 8)
    OR push_bit 32 (mask 8) OR push_bit 40 (mask 8) OR push_bit 48 (mask 8)
    OR push_bit 56 (mask 8)) = (- 1 :: uint64)"
  by (simp add: mask_eq_exp_minus_1)

lemma be_bytes_roundtrip:
  fixes v :: uint64
  shows "(ucast (ucast v :: byte) :: uint64) OR push_bit 8 (ucast (ucast (drop_bit 8 v) :: byte))
     OR push_bit 16 (ucast (ucast (drop_bit 16 v) :: byte))
     OR push_bit 24 (ucast (ucast (drop_bit 24 v) :: byte))
     OR push_bit 32 (ucast (ucast (drop_bit 32 v) :: byte))
     OR push_bit 40 (ucast (ucast (drop_bit 40 v) :: byte))
     OR push_bit 48 (ucast (ucast (drop_bit 48 v) :: byte))
     OR push_bit 56 (ucast (ucast (drop_bit 56 v) :: byte)) = v"
proof -
  have "v AND (mask 8 OR push_bit 8 (mask 8) OR push_bit 16 (mask 8) OR push_bit 24 (mask 8)
    OR push_bit 32 (mask 8) OR push_bit 40 (mask 8) OR push_bit 48 (mask 8)
    OR push_bit 56 (mask 8)) = v"
    by (simp only: masks_cover) simp
  then show ?thesis
    unfolding byte_at unfolding byte_at0 by (simp only: bit.conj_disj_distrib)
qed

lemma PutUint64_fresh:
  "PutUint64 (replicate FeeLength 0) v =
     Return [ucast (drop_bit 56 v), ucast (drop_bit 48 v), ucast (drop_bit 40 v),
             ucast (drop_bit 32 v), ucast (drop_bit 24 v), ucast (drop_bit 16 v),
             ucast (drop_bit 8 v), ucast v]"
  by (simp add: PutUint64_def FeeLength_def numeral_eq_Suc)

lemma Uint64_PutUint64:
  "PutUint64 (replicate FeeLength 0) v = Return b \<Longrightarrow> Uint64 b = Return v"
  unfolding PutUint64_fresh
  by (auto simp add: Uint64_def be_bytes_roundtrip)

lemma slice_fee:
  "length data = FeeLength + MainchainAddressLength \<Longrightarrow>
   slice data 0 FeeLength = Return (take FeeLength data)"
  by (simp add: slice_def)

lemma slice_address:
  "length data = FeeLength + MainchainAddressLength \<Longrightarrow>
   slice data FeeLength (FeeLength + MainchainAddressLength) = Return (drop FeeLength data)"
  by (simp add: slice_def)

lemma Uint64_returns:
  "length b = FeeLength \<Longrightarrow> \<exists>w. Uint64 b = Return w"
  by (simp add: Uint64_def FeeLength_def)

text \<open>\<open>Uint64\<close> computes the big-endian value of its eight bytes.\<close>

lemma or_push_byte:
  fixes b :: byte and r :: int
  shows "uint b OR push_bit 8 r = uint b + 256 * r"
proof -
  have "take_bit 8 (uint b) = uint b"
    using uint_bounded [of b] by (simp add: take_bit_int_eq_self)
  then show ?thesis
    using concat_bit_eq [of 8 "uint b" r] by (simp add: concat_bit_def push_bit_eq_mult)
qed

lemma uint_push_byte:
  fixes b :: byte
  assumes "k \<le> 56"
  shows "uint (push_bit k (ucast b :: uint64)) = push_bit k (uint b)"
proof -
  have "uint b < 2 ^ 8"
    using uint_bounded [of b] by simp
  then have "uint b * 2 ^ k < 2 ^ 8 * 2 ^ k"
    by simp
  also have "\<dots> = (2::int) ^ (8 + k)"
    by (simp add: power_add)
  also have "\<dots> \<le> 2 ^ 64"
    using assms by (intro power_increasing) simp_all
  finally have "push_bit k (uint b) < 2 ^ 64"
    by (simp add: push_bit_eq_mult)
  moreover have "0 \<le> push_bit k (uint b)"
    by simp
  ultimately have "take_bit 64 (push_bit k (uint b)) = push_bit k (uint b)"
    by (simp add: take_bit_int_eq_self)
  then show ?thesis
    by (simp add: unsigned_push_bit_eq uint_up_ucast is_up)
qed

lemma uint_ucast_byte:
  fixes b :: byte
  shows "uint (ucast b :: uint64) = uint b"
  by (simp add: uint_up_ucast is_up)

lemma Uint64_big_endian_value:
  assumes "Uint64 [b0, b1, b2, b3, b4, b5, b6, b7] = Return w"
  shows "uint w = big_endian_value [b0, b1, b2, b3, b4, b5, b6, b7]"
proof -
  have w: "w = ucast b7 OR push_bit 8 (ucast b6) OR push_bit 16 (ucast b5)
      OR push_bit 24 (ucast b4) OR push_bit 32 (ucast b3) OR push_bit 40 (ucast b2)
      OR push_bit 48 (ucast b1) OR push_bit 56 (ucast b0)"
    using assms by (simp add: Uint64_def)
  have "uint w = uint b7 OR push_bit 8 (uint b6) OR push_bit 16 (uint b5)
      OR push_bit 24 (uint b4) OR push_bit 32 (uint b3) OR push_bit 40 (uint b2)
      OR push_bit 48 (uint b1) OR push_bit 56 (uint b0)"
    unfolding w by (simp only: unsigned_or_eq uint_push_byte uint_ucast_byte)
  also have "\<dots> = uint b7 OR push_bit 8 (uint b6 OR push_bit 8 (uint b5
      OR push_bit 8 (uint b4 OR push_bit 8 (uint b3 OR push_bit 8 (uint b2
      OR push_bit 8 (uint b1 OR push_bit 8 (uint b0)))))))"
    by (simp only: push_bit_or push_bit_push_bit) simp
  also have "\<dots> = uint b7 + 256 * (uint b6 + 256 * (uint b5 + 256 * (uint b4
      + 256 * (uint b3 + 256 * (uint b2 + 256 * (uint b1 + 256 * uint b0))))))"
    by (simp only: or_push_byte)
  also have "\<dots> = big_endian_value [b0, b1, b2, b3, b4, b5, b6, b7]"
    by (simp add: big_endian_value_def)
  finally show ?thesis .
qed

lemma list8:
  assumes "length xs = 8"
  obtains b0 b1 b2 b3 b4 b5 b6 b7 where "xs = [b0, b1, b2, b3, b4, b5, b6, b7]"
proof -
  from assms have "length xs = Suc (Suc (Suc (Suc (Suc (Suc (Suc (Suc 0)))))))"
    by simp
  then show ?thesis
    using that by (auto simp: length_Suc_conv)
qed

text \<open>
  \<open>big.NewInt(int64(x))\<close> of a \<open>uint64\<close> \<open>x\<close>: the value of \<open>x\<close> below \<open>2^63\<close>, and
  \<open>2^64\<close> less from there on.
\<close>

lemma NewInt_small:
  fixes x :: uint64
  assumes "x < 2 ^ 63"
  shows "NewInt x = uint x"
proof -
  have "uint x < 2 ^ 63"
    using assms by (simp add: word_less_def)
  moreover have "- (2 ^ 63) \<le> uint x"
    by (rule order_trans [of _ 0]) simp_all
  ultimately have "signed_take_bit 63 (uint x) = uint x"
    by (rule signed_take_bit_int_eq_self [rotated])
  then show ?thesis
    unfolding NewInt_def by (simp add: sint_uint)
qed

lemma NewInt_large:
  fixes x :: uint64
  assumes "2 ^ 63 \<le> x"
  shows "NewInt x = uint x - 2 ^ 64"
proof -
  have lo: "2 ^ 63 \<le> uint x"
    using assms by (simp add: word_le_def)
  have hi: "uint x < 2 ^ 64"
    using uint_bounded [of x] by simp
  have "uint x + 2 ^ 63 = uint x - 2 ^ 63 + 1 * 2 ^ 64"
    by simp
  then have "(uint x + 2 ^ 63) mod 2 ^ 64 = (uint x - 2 ^ 63 + 1 * 2 ^ 64) mod 2 ^ 64"
    by (rule arg_cong)
  also have "\<dots> = (uint x - 2 ^ 63) mod 2 ^ 64"
    by (rule mod_mult_self1)
  also have "\<dots> = uint x - 2 ^ 63"
    using lo hi by (simp add: mod_pos_pos_trivial)
  finally have "take_bit (Suc 63) (uint x + 2 ^ 63) - 2 ^ 63 = uint x - 2 ^ 64"
    by (simp add: take_bit_eq_mod)
  then have "signed_take_bit 63 (uint x) = uint x - 2 ^ 64"
    by (simp only: signed_take_bit_eq_take_bit_shift)
  then show ?thesis
    unfolding NewInt_def by (simp add: sint_uint)
qed

text \<open>
  Division by \<open>Satoshi\<close>: it never panics, it undoes the multiplication, on a dividend
  that is not negative it is the quotient truncated towards zero, and it drops the
  remainder. On a negative dividend Go's \<open>Div\<close> rounds down, away from zero.
\<close>

lemma Div_Satoshi: "Div v Satoshi = Return (v div Satoshi)"
  by (simp add: Div_def Satoshi_def)

lemma Div_nonneg_truncates:
  "0 \<le> v \<Longrightarrow> Div v Satoshi = Return (v sdiv Satoshi)"
  by (cases "v = 0") (simp_all add: Div_def Satoshi_def signed_divide_int_def)

lemma Div_Mul_Satoshi: "Div (Mul x Satoshi) Satoshi = Return x"
  by (simp add: Div_def Mul_def Satoshi_def)

lemma Div_loses_remainder:
  assumes "\<not> Satoshi dvd v"
  shows "Mul (v div Satoshi) Satoshi < v"
proof -
  have "v mod Satoshi \<noteq> 0" using assms by (simp add: dvd_eq_mod_eq_0)
  moreover have "0 \<le> v mod Satoshi" by (simp add: Satoshi_def)
  ultimately have "0 < v mod Satoshi" by simp
  moreover have "v = v div Satoshi * Satoshi + v mod Satoshi" by simp
  ultimately show ?thesis unfolding Mul_def by linarith
qed

lemma Div_negative_floors: "Div (- 1) Satoshi = Return (- 1) \<and> (- 1) sdiv Satoshi = 0"
  by (simp add: Div_def Satoshi_def signed_divide_int_def)

lemma Div_negative_rounds_down:
  assumes "v < 0" and "\<not> Satoshi dvd v"
  shows "v div Satoshi = v sdiv Satoshi - 1"
proof -
  have m: "(- v) mod Satoshi \<noteq> 0"
    using assms(2) by (simp add: dvd_eq_mod_eq_0 [symmetric])
  have "v div Satoshi = (- (- v)) div Satoshi"
    by simp
  also have "\<dots> = - ((- v) div Satoshi) - 1"
    using m zdiv_zminus1_eq_if [of Satoshi "- v"] by (simp add: Satoshi_def)
  also have "- ((- v) div Satoshi) = v sdiv Satoshi"
    using assms(1) by (simp add: signed_divide_int_def Satoshi_def)
  finally show ?thesis .
qed

section \<open>Properties of the withdrawal codec\<close>

lemma DecodeWithdrawal_payload:
  assumes len: "length data = FeeLength + MainchainAddressLength"
    and fee: "Uint64 (take FeeLength data) = Return w"
  shows "DecodeWithdrawal val data =
     Return (Inr \<lparr>Address = drop FeeLength data, Amount = val div Satoshi, Fee = sint w\<rparr>)"
proof -
  have a: "length (drop FeeLength data) = length (replicate MainchainAddressLength (0::byte))"
    using len by simp
  have f: "length (take FeeLength data) = FeeLength"
    using len by simp
  have d: "length (drop FeeLength data) = MainchainAddressLength"
    using len by simp
  show ?thesis
    unfolding DecodeWithdrawal_def
    by (simp only: len slice_fee [OF len] slice_address [OF len] f d
        copy_range_full [OF a] Div_Satoshi fee NewInt_def outcome.case if_False
        not_False_eq_True not_True_eq_False simp_thms)
qed

lemma GetWithdrawalData_bytes:
  assumes "length cAddress = MainchainAddressLength"
  shows "GetWithdrawalData cAddress fee =
     Return ([ucast (drop_bit 56 fee), ucast (drop_bit 48 fee), ucast (drop_bit 40 fee),
              ucast (drop_bit 32 fee), ucast (drop_bit 24 fee), ucast (drop_bit 16 fee),
              ucast (drop_bit 8 fee), ucast fee] @ cAddress)"
  using assms by (simp add: GetWithdrawalData_def PutUint64_fresh copy_range_full)

text \<open>
  Decoding an encoded payload gives the address back, and the fee in its signed reading:
  the fee itself below \<open>2^63\<close>.
\<close>

lemma decode_encode:
  assumes addr: "length cAddress = MainchainAddressLength"
    and enc: "GetWithdrawalData cAddress fee = Return data"
  shows "DecodeWithdrawal val data =
     Return (Inr \<lparr>Address = cAddress, Amount = val div Satoshi, Fee = sint fee\<rparr>)"
proof -
  obtain fb where fb: "PutUint64 (replicate FeeLength 0) fee = Return fb"
    by (simp add: PutUint64_fresh)
  have lfb: "length fb = FeeLength"
    using fb unfolding PutUint64_fresh by (auto simp: FeeLength_def)
  have data: "data = fb @ cAddress"
    using enc addr fb by (simp add: GetWithdrawalData_def copy_range_full)
  have len: "length data = FeeLength + MainchainAddressLength"
    using data lfb addr by simp
  have "Uint64 (take FeeLength data) = Return fee"
    using Uint64_PutUint64 [OF fb] data lfb by simp
  from DecodeWithdrawal_payload [OF len this] show ?thesis
    using data lfb by simp
qed

text \<open>
  The decoded fee against the wire format: the big-endian value of the first eight bytes
  when that is below \<open>2^63\<close>, and \<open>2^64\<close> less otherwise.
\<close>

lemma DecodeWithdrawal_fee_value:
  assumes "length data = 28"
  shows "\<exists>w. DecodeWithdrawal val data = Return (Inr w) \<and>
     Fee w = (if big_endian_value (take 8 data) < 2 ^ 63
              then big_endian_value (take 8 data)
              else big_endian_value (take 8 data) - 2 ^ 64)"
proof -
  from assms have len: "length data = FeeLength + MainchainAddressLength"
    by (simp add: FeeLength_def MainchainAddressLength_def)
  have "length (take 8 data) = 8"
    using assms by simp
  then obtain b0 b1 b2 b3 b4 b5 b6 b7 where bs: "take 8 data = [b0, b1, b2, b3, b4, b5, b6, b7]"
    by (rule list8)
  obtain f where f: "Uint64 (take 8 data) = Return f"
    unfolding bs by (simp add: Uint64_def)
  then have v: "uint f = big_endian_value (take 8 data)"
    unfolding bs by (rule Uint64_big_endian_value)
  have dec: "DecodeWithdrawal val data =
     Return (Inr \<lparr>Address = drop FeeLength data, Amount = val div Satoshi, Fee = sint f\<rparr>)"
    using DecodeWithdrawal_payload [OF len, of f val] f by (simp add: FeeLength_def)
  show ?thesis
  proof (cases "f < 2 ^ 63")
    case True
    then have "uint f < 2 ^ 63" by (simp add: word_less_def)
    moreover have "sint f = uint f"
      using NewInt_small [OF True] by (simp add: NewInt_def)
    ultimately show ?thesis using dec v by simp
  next
    case False
    then have ge: "2 ^ 63 \<le> f" by simp
    then have "\<not> uint f < 2 ^ 63" by (simp add: word_le_def)
    moreover have "sint f = uint f - 2 ^ 64"
      using NewInt_large [OF ge] by (simp add: NewInt_def)
    ultimately show ?thesis using dec v by simp
  qed
qed

text \<open>
  Claim C6. \<open>DecodeWithdrawal(value, data)\<close> returns the bad-length error exactly when the
  length of \<open>data\<close> is not 28; on a 28-byte input it returns a withdrawal and no error, and
  on every other length it returns no withdrawal.
\<close>

theorem DecodeWithdrawal_bad_length_iff:
  "((DecodeWithdrawal val data = Return (Inl (Error ''wrong withdrawal data length'')))
      = (length data \<noteq> 28)) \<and>
   (length data = 28 \<longrightarrow> (\<exists>w. DecodeWithdrawal val data = Return (Inr w))) \<and>
   (length data \<noteq> 28 \<longrightarrow> (\<forall>w. DecodeWithdrawal val data \<noteq> Return (Inr w)))"
proof (cases "length data = 28")
  case True
  then have len: "length data = FeeLength + MainchainAddressLength"
    by (simp add: FeeLength_def MainchainAddressLength_def)
  then have "length (take FeeLength data) = FeeLength" by simp
  then obtain f where "Uint64 (take FeeLength data) = Return f"
    using Uint64_returns by blast
  from DecodeWithdrawal_payload [OF len this] True show ?thesis by simp
next
  case False
  then have "DecodeWithdrawal val data = Return (Inl (Error ''wrong withdrawal data length''))"
    by (simp add: DecodeWithdrawal_def FeeLength_def MainchainAddressLength_def)
  with False show ?thesis by simp
qed

text \<open>C6 at a 28-byte payload and at the empty payload.\<close>

theorem DecodeWithdrawal_bad_length_iff_witness:
  "length (replicate 28 (0::byte)) = 28 \<and>
   (\<exists>w. DecodeWithdrawal 0 (replicate 28 0) = Return (Inr w)) \<and>
   length ([]::byte list) \<noteq> 28 \<and>
   DecodeWithdrawal 0 [] = Return (Inl (Error ''wrong withdrawal data length''))"
  using DecodeWithdrawal_bad_length_iff [of 0 "replicate 28 0"]
    DecodeWithdrawal_bad_length_iff [of 0 "[]"]
  by simp

text \<open>
  Claim C10. \<open>DecodeWithdrawal\<close> never reaches either of its two ``off by one error''
  panics: it always returns (the length error or a withdrawal), and once the length check
  has passed, the fee slice has length 8 and the address slice has length 20.
\<close>

theorem DecodeWithdrawal_no_assertion_failure:
  "DecodeWithdrawal val data \<noteq> Panic ''off by one error'' \<and>
   (\<exists>r. DecodeWithdrawal val data = Return r) \<and>
   (length data = FeeLength + MainchainAddressLength \<longrightarrow>
      (\<exists>feeBytes addressBytes.
          slice data 0 FeeLength = Return feeBytes \<and> length feeBytes = FeeLength \<and>
          slice data FeeLength (FeeLength + MainchainAddressLength) = Return addressBytes \<and>
          length addressBytes = MainchainAddressLength))"
proof (cases "length data = FeeLength + MainchainAddressLength")
  case True
  then have "length (take FeeLength data) = FeeLength" by simp
  then obtain f where "Uint64 (take FeeLength data) = Return f"
    using Uint64_returns by blast
  from DecodeWithdrawal_payload [OF True this] have
    "DecodeWithdrawal val data \<noteq> Panic ''off by one error''"
    "\<exists>r. DecodeWithdrawal val data = Return r"
    by simp_all
  moreover have "length (take FeeLength data) = FeeLength"
    "length (drop FeeLength data) = MainchainAddressLength"
    using True by simp_all
  ultimately show ?thesis
    using slice_fee [OF True] slice_address [OF True] by simp
next
  case False
  then show ?thesis by (simp add: DecodeWithdrawal_def)
qed

text \<open>C10 at the payload of 28 zero bytes.\<close>

theorem DecodeWithdrawal_no_assertion_failure_witness:
  "length (replicate 28 (0::byte)) = FeeLength + MainchainAddressLength \<and>
   DecodeWithdrawal 0 (replicate 28 0) \<noteq> Panic ''off by one error'' \<and>
   (\<exists>r. DecodeWithdrawal 0 (replicate 28 0) = Return r) \<and>
   (\<exists>feeBytes addressBytes.
       slice (replicate 28 (0::byte)) 0 FeeLength = Return feeBytes \<and>
       length feeBytes = FeeLength \<and>
       slice (replicate 28 (0::byte)) FeeLength (FeeLength + MainchainAddressLength)
         = Return addressBytes \<and>
       length addressBytes = MainchainAddressLength)"
proof -
  have len: "length (replicate 28 (0::byte)) = FeeLength + MainchainAddressLength"
    by (simp add: FeeLength_def MainchainAddressLength_def)
  show ?thesis
    using len DecodeWithdrawal_no_assertion_failure [of 0 "replicate 28 0"] by blast
qed

text \<open>
  Claim C7. Encoding the fee 1000 with the address of twenty zero bytes gives
  \<open>00000000000003E8\<close> followed by twenty zero bytes, and decoding that payload with the
  amount \<open>10_000_000_000\<close> gives the address of twenty zero bytes, the amount 1 and the
  fee 1000.
\<close>

theorem encode_decode_scenario:
  "GetWithdrawalData (replicate 20 0) 1000 =
     Return ([0, 0, 0, 0, 0, 0, 0x03, 0xE8] @ replicate 20 0) \<and>
   DecodeWithdrawal 10000000000 ([0, 0, 0, 0, 0, 0, 0x03, 0xE8] @ replicate 20 0) =
     Return (Inr \<lparr>Address = replicate 20 0, Amount = 1, Fee = 1000\<rparr>)"
proof
  show "GetWithdrawalData (replicate 20 0) 1000 =
     Return ([0, 0, 0, 0, 0, 0, 0x03, 0xE8] @ replicate 20 0)"
    by (simp add: GetWithdrawalData_bytes MainchainAddressLength_def drop_bit_eq_div)
  have len: "length ([0, 0, 0, 0, 0, 0, 0x03, 0xE8] @ replicate 20 (0::byte))
      = FeeLength + MainchainAddressLength"
    by (simp add: FeeLength_def MainchainAddressLength_def)
  have fee: "Uint64 (take FeeLength ([0, 0, 0, 0, 0, 0, 0x03, 0xE8] @ replicate 20 (0::byte)))
      = Return 1000"
    by (simp add: FeeLength_def Uint64_def)
  show "DecodeWithdrawal 10000000000 ([0, 0, 0, 0, 0, 0, 0x03, 0xE8] @ replicate 20 0) =
     Return (Inr \<lparr>Address = replicate 20 0, Amount = 1, Fee = 1000\<rparr>)"
    using DecodeWithdrawal_payload [OF len fee, of 10000000000]
    by (simp add: FeeLength_def Satoshi_def)
qed

text \<open>
  Claim C3 says that the decoded fee is the first 8 bytes read as a big-endian unsigned
  integer, also from \<open>2^63\<close> on. The code reads the bytes through \<open>int64\<close>: for the payload
  \<open>80 00 00 00 00 00 00 00\<close> followed by twenty zero bytes the big-endian value is
  \<open>2^63\<close> and the decoded fee is \<open>-2^63\<close>.
\<close>

theorem DecodeWithdrawal_fee_sign_flip:
  "DecodeWithdrawal 0 ([0x80, 0, 0, 0, 0, 0, 0, 0] @ replicate 20 0) =
     Return (Inr \<lparr>Address = replicate 20 0, Amount = 0, Fee = - 9223372036854775808\<rparr>) \<and>
   big_endian_value [0x80, 0, 0, 0, 0, 0, 0, 0] = 9223372036854775808"
proof
  have len: "length ([0x80, 0, 0, 0, 0, 0, 0, 0] @ replicate 20 (0::byte))
      = FeeLength + MainchainAddressLength"
    by (simp add: FeeLength_def MainchainAddressLength_def)
  have fee: "Uint64 (take FeeLength ([0x80, 0, 0, 0, 0, 0, 0, 0] @ replicate 20 (0::byte)))
      = Return 0x8000000000000000"
    by (simp add: FeeLength_def Uint64_def)
  show "DecodeWithdrawal 0 ([0x80, 0, 0, 0, 0, 0, 0, 0] @ replicate 20 0) =
     Return (Inr \<lparr>Address = replicate 20 0, Amount = 0, Fee = - 9223372036854775808\<rparr>)"
    using DecodeWithdrawal_payload [OF len fee, of 0]
    by (simp add: FeeLength_def)
  show "big_endian_value [0x80, 0, 0, 0, 0, 0, 0, 0] = 9223372036854775808"
    by (simp add: big_endian_value_def)
qed

text \<open>
  Claim C4 says that decoding an encoded payload gives back the fee and the address, for
  every fee that \<open>GetWithdrawalData\<close> accepts. For the fee \<open>2^63\<close> and the address of twenty
  zero bytes the address comes back and the fee comes back as \<open>-2^63\<close>.
\<close>

theorem encode_decode_fee_sign_flip:
  "GetWithdrawalData (replicate 20 0) 0x8000000000000000 =
     Return ([0x80, 0, 0, 0, 0, 0, 0, 0] @ replicate 20 0) \<and>
   DecodeWithdrawal 0 ([0x80, 0, 0, 0, 0, 0, 0, 0] @ replicate 20 0) =
     Return (Inr \<lparr>Address = replicate 20 0, Amount = 0, Fee = - 9223372036854775808\<rparr>) \<and>
   uint (0x8000000000000000 :: uint64) = 9223372036854775808"
proof -
  have enc: "GetWithdrawalData (replicate 20 0) 0x8000000000000000
      = Return ([0x80, 0, 0, 0, 0, 0, 0, 0] @ replicate 20 0)"
    by (simp add: GetWithdrawalData_bytes MainchainAddressLength_def drop_bit_eq_div)
  have "length (replicate 20 (0::byte)) = MainchainAddressLength"
    by (simp add: MainchainAddressLength_def)
  from decode_encode [OF this enc, of 0] show ?thesis
    using enc by simp
qed

section \<open>Properties of the unspent withdrawals\<close>

lemma GetUnspentWithdrawals_snoc:
  "GetUnspentWithdrawals H (cs @ [c]) =
     (GetUnspentWithdrawals H cs)(H (cw_id c) \<mapsto>
        \<lparr>Address = cw_address c,
         Amount = Mul (NewInt (cw_amount c)) Satoshi,
         Fee = Mul (NewInt (cw_fee c)) Satoshi\<rparr>)"
  by (simp add: GetUnspentWithdrawals_def)

lemma GetUnspentWithdrawals_single:
  "GetUnspentWithdrawals H [c] (H (cw_id c)) =
     Some \<lparr>Address = cw_address c,
           Amount = Mul (NewInt (cw_amount c)) Satoshi,
           Fee = Mul (NewInt (cw_fee c)) Satoshi\<rparr>"
  by (simp add: GetUnspentWithdrawals_def)

text \<open>
  The entry under a key comes from the last record of the array with that key, its amount
  and fee multiplied in their signed readings.
\<close>

lemma GetUnspentWithdrawals_lookup:
  "GetUnspentWithdrawals H cs k =
     (if filter (\<lambda>c. H (cw_id c) = k) cs = [] then None
      else Some \<lparr>Address = cw_address (last (filter (\<lambda>c. H (cw_id c) = k) cs)),
                 Amount = Mul (NewInt (cw_amount (last (filter (\<lambda>c. H (cw_id c) = k) cs))))
                              Satoshi,
                 Fee = Mul (NewInt (cw_fee (last (filter (\<lambda>c. H (cw_id c) = k) cs))))
                           Satoshi\<rparr>)"
proof (induction cs rule: rev_induct)
  case Nil
  show ?case by (simp add: GetUnspentWithdrawals_def)
next
  case (snoc c cs)
  show ?case
  proof (cases "H (cw_id c) = k")
    case True
    then show ?thesis
      by (simp add: GetUnspentWithdrawals_snoc)
  next
    case False
    then show ?thesis
      using snoc.IH by (simp add: GetUnspentWithdrawals_snoc)
  qed
qed

text \<open>Below \<open>2^63\<close> the conversion is the exact product.\<close>

lemma GetUnspentWithdrawals_single_exact:
  assumes "cw_amount c < 2 ^ 63" and "cw_fee c < 2 ^ 63"
  shows "GetUnspentWithdrawals H [c] (H (cw_id c)) =
     Some \<lparr>Address = cw_address c,
           Amount = uint (cw_amount c) * 10 ^ 10,
           Fee = uint (cw_fee c) * 10 ^ 10\<rparr>"
  using assms
  by (simp add: GetUnspentWithdrawals_single NewInt_small Mul_def Satoshi_def)

text \<open>
  Claim C2 says that \<open>GetUnspentWithdrawals\<close> maps the id of every engine record to a
  withdrawal with the amount and the fee multiplied by \<open>10^10\<close>, exact and nonnegative
  over the whole unsigned 64-bit range. The code multiplies \<open>big.NewInt(int64(amount))\<close>:
  for a record with amount and fee \<open>2^63\<close> the entry holds \<open>-2^63 * 10^10\<close> twice, where
  the claim has \<open>2^63 * 10^10\<close>.
\<close>

theorem GetUnspentWithdrawals_sign_flip:
  "GetUnspentWithdrawals (\<lambda>s. [])
     [\<lparr>cw_id = ''00'', cw_address = replicate 20 0,
       cw_amount = 0x8000000000000000, cw_fee = 0x8000000000000000\<rparr>] [] =
   Some \<lparr>Address = replicate 20 0,
         Amount = - 92233720368547758080000000000,
         Fee = - 92233720368547758080000000000\<rparr> \<and>
   uint (0x8000000000000000 :: uint64) * 10 ^ 10 = 92233720368547758080000000000"
  by (simp add: GetUnspentWithdrawals_def NewInt_def Mul_def Satoshi_def)

section \<open>Unit conversion\<close>

text \<open>
  Claim C5 says that a sidechain-unit value that is not a multiple of \<open>10^10\<close> is converted
  down by truncating division toward zero. \<open>DecodeWithdrawal\<close> divides with \<open>big.Int.Div\<close>,
  which is Euclidean: the value \<open>-1\<close> is not a multiple of \<open>10^10\<close>, truncation toward zero
  gives 0, and the decoded amount is \<open>-1\<close>.
\<close>

theorem DecodeWithdrawal_negative_rounds_down:
  "DecodeWithdrawal (- 1) (replicate 28 0) =
     Return (Inr \<lparr>Address = replicate 20 0, Amount = - 1, Fee = 0\<rparr>) \<and>
   \<not> Satoshi dvd (- 1) \<and>
   (- 1) sdiv Satoshi = 0 \<and>
   DecodeWithdrawal (- 1) (replicate 28 0) \<noteq>
     Return (Inr \<lparr>Address = replicate 20 0, Amount = (- 1) sdiv Satoshi, Fee = 0\<rparr>)"
proof -
  have len: "length (replicate 28 (0::byte)) = FeeLength + MainchainAddressLength"
    by (simp add: FeeLength_def MainchainAddressLength_def)
  have fee: "Uint64 (take FeeLength (replicate 28 (0::byte))) = Return 0"
    by (simp add: FeeLength_def Uint64_def)
  have "DecodeWithdrawal (- 1) (replicate 28 0) =
     Return (Inr \<lparr>Address = replicate 20 0, Amount = - 1, Fee = 0\<rparr>)"
    using DecodeWithdrawal_payload [OF len fee, of "- 1"]
    by (simp add: FeeLength_def Satoshi_def)
  then show ?thesis
    by (simp add: Satoshi_def signed_divide_int_def)
qed

text \<open>
  Claim C5, as the code has it. Multiplying a mainchain-unit integer \<open>x\<close> by \<open>Satoshi\<close>, as
  \<open>GetUnspentWithdrawals\<close> does, and dividing by \<open>Satoshi\<close>, as \<open>DecodeWithdrawal\<close> does,
  gives \<open>x\<close> back: for the operations alone, for the amount and fee of an entry of
  \<open>GetUnspentWithdrawals\<close>, and for the amount that \<open>DecodeWithdrawal\<close> returns. In the
  other direction a sidechain-unit value \<open>v\<close> that is not a multiple of \<open>10^10\<close> loses its
  remainder by Euclidean division, which rounds down: the amount times \<open>10^10\<close> is below
  \<open>v\<close> by less than \<open>10^10\<close>, and the value 1 gives 0. For \<open>v\<close> that is not negative this is
  the truncation toward zero; for a negative \<open>v\<close> that is not a multiple of \<open>10^10\<close> it is
  one less than the truncation.
\<close>

theorem unit_conversion_round_trip:
  "Div (Mul x Satoshi) Satoshi = Return x \<and>
   (\<exists>w. GetUnspentWithdrawals H [c] (H (cw_id c)) = Some w \<and>
        Div (Amount w) Satoshi = Return (NewInt (cw_amount c)) \<and>
        Div (Fee w) Satoshi = Return (NewInt (cw_fee c))) \<and>
   (length data = 28 \<longrightarrow>
      (\<exists>w. DecodeWithdrawal (Mul x Satoshi) data = Return (Inr w) \<and> Amount w = x) \<and>
      (\<exists>w. DecodeWithdrawal 1 data = Return (Inr w) \<and> Amount w = 0) \<and>
      (\<exists>w. DecodeWithdrawal v data = Return (Inr w) \<and>
           (if Satoshi dvd v then Mul (Amount w) Satoshi = v
            else Mul (Amount w) Satoshi < v \<and> v < Mul (Amount w) Satoshi + Satoshi) \<and>
           (0 \<le> v \<longrightarrow> Amount w = v sdiv Satoshi) \<and>
           (v < 0 \<longrightarrow> Amount w = (if Satoshi dvd v then v sdiv Satoshi
                                    else v sdiv Satoshi - 1))))"
proof -
  have a: "Div (Mul x Satoshi) Satoshi = Return x"
    by (rule Div_Mul_Satoshi)
  have b: "\<exists>w. GetUnspentWithdrawals H [c] (H (cw_id c)) = Some w \<and>
        Div (Amount w) Satoshi = Return (NewInt (cw_amount c)) \<and>
        Div (Fee w) Satoshi = Return (NewInt (cw_fee c))"
    by (simp add: GetUnspentWithdrawals_single Div_Mul_Satoshi)
  have dec: "\<exists>w. DecodeWithdrawal u data = Return (Inr w) \<and> Amount w = u div Satoshi"
    if "length data = 28" for u
  proof -
    from that have len: "length data = FeeLength + MainchainAddressLength"
      by (simp add: FeeLength_def MainchainAddressLength_def)
    then have "length (take FeeLength data) = FeeLength" by simp
    then obtain f where "Uint64 (take FeeLength data) = Return f"
      using Uint64_returns by blast
    from DecodeWithdrawal_payload [OF len this] show ?thesis by simp
  qed
  have c1: "\<exists>w. DecodeWithdrawal (Mul x Satoshi) data = Return (Inr w) \<and> Amount w = x"
    if "length data = 28"
    using dec [OF that, of "Mul x Satoshi"] by (simp add: Mul_def Satoshi_def)
  have c2: "\<exists>w. DecodeWithdrawal 1 data = Return (Inr w) \<and> Amount w = 0"
    if "length data = 28"
    using dec [OF that, of 1] by (simp add: Satoshi_def)
  have d: "\<exists>w. DecodeWithdrawal v data = Return (Inr w) \<and>
           (if Satoshi dvd v then Mul (Amount w) Satoshi = v
            else Mul (Amount w) Satoshi < v \<and> v < Mul (Amount w) Satoshi + Satoshi) \<and>
           (0 \<le> v \<longrightarrow> Amount w = v sdiv Satoshi) \<and>
           (v < 0 \<longrightarrow> Amount w = (if Satoshi dvd v then v sdiv Satoshi
                                    else v sdiv Satoshi - 1))"
    if len28: "length data = 28"
  proof -
    obtain w where w: "DecodeWithdrawal v data = Return (Inr w)" "Amount w = v div Satoshi"
      using dec [OF len28, of v] by blast
    have t: "v div Satoshi = v sdiv Satoshi" if nonneg: "0 \<le> v"
      using Div_nonneg_truncates [OF nonneg] by (simp add: Div_Satoshi)
    have e: "Mul (v div Satoshi) Satoshi = v" if dvd: "Satoshi dvd v"
      using dvd by (simp add: Mul_def)
    have "v mod Satoshi < Satoshi"
      by (simp add: Satoshi_def)
    moreover have "v = v div Satoshi * Satoshi + v mod Satoshi"
      by simp
    ultimately have u: "v < Mul (v div Satoshi) Satoshi + Satoshi"
      unfolding Mul_def by linarith
    have g: "v div Satoshi = v sdiv Satoshi" if neg: "v < 0" and dvd: "Satoshi dvd v"
    proof -
      from dvd obtain k where k: "v = Satoshi * k" ..
      with neg have "k < 0" by (simp add: Satoshi_def)
      then show ?thesis
        by (simp add: k signed_divide_int_def Satoshi_def)
    qed
    show ?thesis
      using w t e u g Div_loses_remainder [of v] Div_negative_rounds_down [of v] by auto
  qed
  from a b c1 c2 d show ?thesis by blast
qed

text \<open>
  The amended C5 at \<open>x = 7\<close>, an engine record with amount 3 and fee 1, and the values
  \<open>v = 10^10 + 1\<close> and \<open>v = -1\<close>.
\<close>

theorem unit_conversion_round_trip_witness:
  "length (replicate 28 (0::byte)) = 28 \<and> (0::int) \<le> 10000000001 \<and> (- 1 :: int) < 0 \<and>
   Div (Mul 7 Satoshi) Satoshi = Return 7 \<and>
   (\<exists>w. GetUnspentWithdrawals (\<lambda>s. [])
          [\<lparr>cw_id = ''00'', cw_address = replicate 20 0, cw_amount = 3, cw_fee = 1\<rparr>] []
          = Some w \<and>
        Div (Amount w) Satoshi = Return 3 \<and> Div (Fee w) Satoshi = Return 1) \<and>
   (\<exists>w. DecodeWithdrawal (Mul 7 Satoshi) (replicate 28 0) = Return (Inr w) \<and> Amount w = 7) \<and>
   (\<exists>w. DecodeWithdrawal 1 (replicate 28 0) = Return (Inr w) \<and> Amount w = 0) \<and>
   (\<exists>w. DecodeWithdrawal 10000000001 (replicate 28 0) = Return (Inr w) \<and> Amount w = 1 \<and>
        Mul (Amount w) Satoshi < 10000000001) \<and>
   (\<exists>w. DecodeWithdrawal (- 1) (replicate 28 0) = Return (Inr w) \<and> Amount w = - 1 \<and>
        Mul (Amount w) Satoshi < - 1)"
proof -
  have l: "length (replicate 28 (0::byte)) = 28" by simp
  have n: "(0::int) \<le> 10000000001" "(- 1 :: int) < 0" by simp_all
  have s: "(10000000001::int) sdiv Satoshi = 1" "\<not> Satoshi dvd 10000000001"
    "(- 1 :: int) sdiv Satoshi = 0" "\<not> Satoshi dvd (- 1)"
    by (simp_all add: Satoshi_def signed_divide_int_def)
  have i: "NewInt 3 = 3" "NewInt 1 = 1"
    by (simp_all add: NewInt_def)
  have p: "\<exists>w. DecodeWithdrawal 10000000001 (replicate 28 0) = Return (Inr w) \<and> Amount w = 1 \<and>
        Mul (Amount w) Satoshi < 10000000001"
    using l n s
      unit_conversion_round_trip [of 7 "\<lambda>s. []"
        "\<lparr>cw_id = ''00'', cw_address = replicate 20 0, cw_amount = 3, cw_fee = 1\<rparr>"
        "replicate 28 0" 10000000001]
    by auto
  have q: "\<exists>w. DecodeWithdrawal (- 1) (replicate 28 0) = Return (Inr w) \<and> Amount w = - 1 \<and>
        Mul (Amount w) Satoshi < - 1"
    using l n s
      unit_conversion_round_trip [of 7 "\<lambda>s. []"
        "\<lparr>cw_id = ''00'', cw_address = replicate 20 0, cw_amount = 3, cw_fee = 1\<rparr>"
        "replicate 28 0" "- 1"]
    by auto
  show ?thesis
    using l n i p q
      unit_conversion_round_trip [of 7 "\<lambda>s. []"
        "\<lparr>cw_id = ''00'', cw_address = replicate 20 0, cw_amount = 3, cw_fee = 1\<rparr>"
        "replicate 28 0" 1]
    by auto
qed

section \<open>Properties of the deposit ingestion\<close>

lemma foldl_snoc_map: "foldl (\<lambda>acc x. acc @ [f x]) acc xs = acc @ map f xs"
  by (induction xs arbitrary: acc) simp_all

lemma getDepositOutputs_valid:
  "valid ptrDeposits \<Longrightarrow>
   getDepositOutputs ptrDeposits =
     Inr (map (\<lambda>cDeposit. \<lparr>address = cd_address cDeposit, amount = cd_amount cDeposit\<rparr>)
            (elems ptrDeposits))"
  by (simp add: getDepositOutputs_def foldl_snoc_map)

text \<open>
  On a valid answer of the engine \<open>GetDepositOutputs\<close> returns one deposit per record, in
  order, with the parsed address and the amount in its signed reading.
\<close>

lemma GetDepositOutputs_valid:
  "valid ptrDeposits \<Longrightarrow>
   GetDepositOutputs HexToAddress ptrDeposits =
     Inr (map (\<lambda>cDeposit. \<lparr>Deposit.Address = HexToAddress (cd_address cDeposit),
                            Deposit.Amount = NewInt (cd_amount cDeposit)\<rparr>)
            (elems ptrDeposits))"
  by (simp add: GetDepositOutputs_def getDepositOutputs_valid foldl_snoc_map comp_def)

text \<open>
  Claim C1 says that the deposit's amount is the record's amount multiplied by \<open>10^10\<close>.
  \<open>GetDepositOutputs\<close> does not multiply: for a record with the amount 1 the deposit's
  amount is 1, not \<open>10^10\<close>.
\<close>

theorem GetDepositOutputs_not_scaled:
  "GetDepositOutputs (\<lambda>s. [])
     \<lparr>valid = True, elems = [\<lparr>cd_address = ''00'', cd_amount = 1\<rparr>]\<rparr> =
     Inr [\<lparr>Deposit.Address = [], Deposit.Amount = 1\<rparr>] \<and>
   GetDepositOutputs (\<lambda>s. [])
     \<lparr>valid = True, elems = [\<lparr>cd_address = ''00'', cd_amount = 1\<rparr>]\<rparr> \<noteq>
     Inr [\<lparr>Deposit.Address = [], Deposit.Amount = Mul (uint (1 :: uint64)) Satoshi\<rparr>]"
  by (simp add: GetDepositOutputs_def getDepositOutputs_def NewInt_def Mul_def Satoshi_def)

text \<open>
  Claim C1, as the code has it: for every raw deposit record that the engine reports (in
  a valid answer) with address \<open>a\<close> and mainchain-unit amount \<open>m\<close> below \<open>2^63\<close>,
  \<open>GetDepositOutputs\<close> returns, at the record's position, a deposit whose amount is \<open>m\<close>
  itself, in mainchain units, and whose address is the parsed form of \<open>a\<close>.
\<close>

theorem GetDepositOutputs_unscaled:
  assumes "valid ptrDeposits"
    and "i < length (elems ptrDeposits)"
    and "cd_amount (elems ptrDeposits ! i) < 2 ^ 63"
  shows "\<exists>deposits. GetDepositOutputs HexToAddress ptrDeposits = Inr deposits \<and>
     length deposits = length (elems ptrDeposits) \<and>
     Deposit.Address (deposits ! i) = HexToAddress (cd_address (elems ptrDeposits ! i)) \<and>
     Deposit.Amount (deposits ! i) = uint (cd_amount (elems ptrDeposits ! i))"
  using assms by (simp add: GetDepositOutputs_valid NewInt_small)

text \<open>The amended C1 at a valid answer with one record of amount 5.\<close>

theorem GetDepositOutputs_unscaled_witness:
  "valid \<lparr>valid = True, elems = [\<lparr>cd_address = ''00'', cd_amount = 5\<rparr>]\<rparr> \<and>
   (0::nat) < length (elems \<lparr>valid = True, elems = [\<lparr>cd_address = ''00'', cd_amount = 5\<rparr>]\<rparr>) \<and>
   cd_amount (elems \<lparr>valid = True, elems = [\<lparr>cd_address = ''00'', cd_amount = 5\<rparr>]\<rparr> ! 0)
     < 2 ^ 63 \<and>
   (\<exists>deposits. GetDepositOutputs (\<lambda>s. [])
        \<lparr>valid = True, elems = [\<lparr>cd_address = ''00'', cd_amount = 5\<rparr>]\<rparr> = Inr deposits \<and>
      length deposits = 1 \<and>
      Deposit.Address (deposits ! 0) = [] \<and>
      Deposit.Amount (deposits ! 0) = 5)"
proof -
  have v: "valid \<lparr>valid = True, elems = [\<lparr>cd_address = ''00'', cd_amount = 5\<rparr>]\<rparr>"
    by simp
  have l: "(0::nat) < length (elems \<lparr>valid = True, elems = [\<lparr>cd_address = ''00'', cd_amount = 5\<rparr>]\<rparr>)"
    by simp
  have s: "cd_amount (elems \<lparr>valid = True, elems = [\<lparr>cd_address = ''00'', cd_amount = 5\<rparr>]\<rparr> ! 0)
     < 2 ^ 63"
    by simp
  show ?thesis
    using v l s GetDepositOutputs_unscaled [OF v l s, of "\<lambda>s. []"] by simp
qed

section \<open>Properties of the treasury guard\<close>

text \<open>The constant is in lower case already, so lowering it changes nothing.\<close>

lemma TREASURY_ACCOUNT_lower: "ToLower U TREASURY_ACCOUNT = TREASURY_ACCOUNT"
  by (simp add: ToLower_def TREASURY_ACCOUNT_def isASCII_def hasUpper_def less_eq_char_def)

lemma ToLower_ASCII: "isASCII s \<Longrightarrow> ToLower U s = map lowerByte s"
proof -
  have "map lowerByte s = s" if "\<not> hasUpper s"
    using that by (induction s) (auto simp: hasUpper_def lowerByte_def)
  then show "isASCII s \<Longrightarrow> ToLower U s = map lowerByte s"
    by (simp add: ToLower_def)
qed

text \<open>
  Claim C8. \<open>Init\<close> compares the derived address with \<open>TREASURY_ACCOUNT\<close> without regard
  to letter case (the two are equal after lowering both). On a mismatch it panics before
  any effect: it does not return and sends no RPC request. On a match, whatever the case of
  the letters in the derived address's hex form, it does not panic, and it goes on to the
  RPC request once the request is built.
\<close>

theorem Init_treasury_guard:
  "(ToLower U TREASURY_ACCOUNT \<noteq> ToLower U addressHex \<longrightarrow>
      (\<exists>m. Init U (Inr addressHex) newRequest doResult = ([], Panic m))) \<and>
   (ToLower U TREASURY_ACCOUNT = ToLower U addressHex \<longrightarrow>
      (\<forall>m. snd (Init U (Inr addressHex) newRequest doResult) \<noteq> Panic m) \<and>
      (newRequest = None \<longrightarrow>
         HttpDo \<in> set (fst (Init U (Inr addressHex) newRequest doResult))))"
proof (cases "TREASURY_ACCOUNT = ToLower U addressHex")
  case True
  have "snd (Init U (Inr addressHex) newRequest doResult) \<noteq> Panic m" for m
    using True by (simp add: Init_def split: option.split sum.split)
  moreover have "HttpDo \<in> set (fst (Init U (Inr addressHex) newRequest doResult))"
    if "newRequest = None"
    using True that by (simp add: Init_def split: sum.split)
  ultimately show ?thesis
    using True by (simp add: TREASURY_ACCOUNT_lower)
next
  case False
  then show ?thesis
    by (simp add: Init_def TREASURY_ACCOUNT_lower)
qed

text \<open>
  C8 at the constant's address in mixed case, which passes, and at an address that differs
  in its last digit, which panics.
\<close>

theorem Init_treasury_guard_witness:
  "ToLower (\<lambda>s. s) TREASURY_ACCOUNT =
     ToLower (\<lambda>s. s) ''0xC96AAA54E2D44C299564dA76E1CD3184a2386B8D'' \<and>
   (\<forall>m. snd (Init (\<lambda>s. s) (Inr ''0xC96AAA54E2D44C299564dA76E1CD3184a2386B8D'') None
        (Inr \<lparr>StatusCode = 200, Status = ''200 OK'', Body = Inr ''''\<rparr>)) \<noteq> Panic m) \<and>
   HttpDo \<in> set (fst (Init (\<lambda>s. s) (Inr ''0xC96AAA54E2D44C299564dA76E1CD3184a2386B8D'') None
        (Inr \<lparr>StatusCode = 200, Status = ''200 OK'', Body = Inr ''''\<rparr>))) \<and>
   ToLower (\<lambda>s. s) TREASURY_ACCOUNT \<noteq> ToLower (\<lambda>s. s) ''0xc96aaa54e2d44c299564da76e1cd3184a2386b8e'' \<and>
   (\<exists>m. Init (\<lambda>s. s) (Inr ''0xc96aaa54e2d44c299564da76e1cd3184a2386b8e'') None
        (Inr \<lparr>StatusCode = 200, Status = ''200 OK'', Body = Inr ''''\<rparr>) = ([], Panic m))"
proof -
  have m: "ToLower (\<lambda>s. s) TREASURY_ACCOUNT =
     ToLower (\<lambda>s. s) ''0xC96AAA54E2D44C299564dA76E1CD3184a2386B8D''"
    by code_simp
  have n: "ToLower (\<lambda>s. s) TREASURY_ACCOUNT \<noteq>
     ToLower (\<lambda>s. s) ''0xc96aaa54e2d44c299564da76e1cd3184a2386b8e''"
    by code_simp
  show ?thesis
    using m n
      Init_treasury_guard [of "\<lambda>s. s" "''0xC96AAA54E2D44C299564dA76E1CD3184a2386B8D''" None
        "Inr \<lparr>StatusCode = 200, Status = ''200 OK'', Body = Inr ''''\<rparr>"]
      Init_treasury_guard [of "\<lambda>s. s" "''0xc96aaa54e2d44c299564da76e1cd3184a2386b8e''" None
        "Inr \<lparr>StatusCode = 200, Status = ''200 OK'', Body = Inr ''''\<rparr>"]
    by blast
qed

section \<open>Properties of the block connection\<close>

text \<open>
  Claim C9. \<open>ConnectBlock\<close> with \<open>just_checking\<close> true leaves the engine's state as it
  was, for every set of deposits, withdrawals and refunds; so \<open>GetUnspentWithdrawals\<close>,
  \<open>getDepositOutputs\<close> and \<open>GetDepositOutputs\<close> give afterwards what they would have
  given without the call.
\<close>

theorem ConnectBlock_dry_run_frame:
  "snd (ConnectBlock eng s deposits withdrawals refunds True) = s \<and>
   GetUnspentWithdrawals HexToHash
     (get_unspent_withdrawals eng (snd (ConnectBlock eng s deposits withdrawals refunds True)))
     = GetUnspentWithdrawals HexToHash (get_unspent_withdrawals eng s) \<and>
   getDepositOutputs
     (get_deposit_outputs eng (snd (ConnectBlock eng s deposits withdrawals refunds True)))
     = getDepositOutputs (get_deposit_outputs eng s) \<and>
   GetDepositOutputs HexToAddress
     (get_deposit_outputs eng (snd (ConnectBlock eng s deposits withdrawals refunds True)))
     = GetDepositOutputs HexToAddress (get_deposit_outputs eng s)"
proof -
  have "snd (ConnectBlock eng s deposits withdrawals refunds True) = s"
    by (simp add: ConnectBlock_def connect_block_def Let_def)
  then show ?thesis by simp
qed

end
